theory Spec2Isabelle
  imports Complex_Main "HOL-Library.Monad_Syntax" "HOL-Library.List_Lexorder"
    "HOL-Library.Char_ord"
begin

section \<open>The API client module (frontend/src/api/client.js)\<close>

datatype http_method = GET | POST | PUT | DELETE

text \<open>The comment headings under which the module groups its exported functions.\<close>

datatype client_section =
  Sec_User | Sec_Garmin | Sec_Food | Sec_Medications | Sec_MedicationSchedules
  | Sec_Sickness | Sec_Seizures | Sec_Notes | Sec_Water | Sec_Dashboard | Sec_Export

text \<open>
  One exported function of the module (lines 36-111): its name, the heading it stands
  under, the HTTP method it calls on \<open>apiClient\<close>, its path, a template parameter
  \<open>${id}\<close> written \<open>{id}\<close>, and the names of the query parameters it passes in
  \<open>params\<close>.
\<close>

record api_export =
  export_name :: string
  heading :: client_section
  verb :: http_method
  path :: string
  query :: "string list"

definition client_exports :: "api_export list" where
  "client_exports =
     [
      \<lparr>export_name = ''getUser'', heading = Sec_User,
        verb = GET, path = ''/user/me'', query = []\<rparr>,
      \<lparr>export_name = ''updateUser'', heading = Sec_User,
        verb = PUT, path = ''/user/me'', query = []\<rparr>,
      \<lparr>export_name = ''checkGarminConfigured'', heading = Sec_User,
        verb = GET, path = ''/user/garmin-configured'', query = []\<rparr>,
      \<lparr>export_name = ''syncGarminData'', heading = Sec_Garmin,
        verb = POST, path = ''/garmin/sync'', query = []\<rparr>,
      \<lparr>export_name = ''getGarminData'', heading = Sec_Garmin,
        verb = GET, path = ''/garmin/data'', query = [''start_date'', ''end_date'']\<rparr>,
      \<lparr>export_name = ''getActivities'', heading = Sec_Garmin,
        verb = GET, path = ''/garmin/activities'', query = [''start_date'', ''end_date'']\<rparr>,
      \<lparr>export_name = ''createFoodEntry'', heading = Sec_Food,
        verb = POST, path = ''/food/'', query = []\<rparr>,
      \<lparr>export_name = ''getFoodEntries'', heading = Sec_Food,
        verb = GET, path = ''/food/'', query = [''start_date'', ''end_date'', ''meal_type'']\<rparr>,
      \<lparr>export_name = ''updateFoodEntry'', heading = Sec_Food,
        verb = PUT, path = ''/food/{id}'', query = []\<rparr>,
      \<lparr>export_name = ''deleteFoodEntry'', heading = Sec_Food,
        verb = DELETE, path = ''/food/{id}'', query = []\<rparr>,
      \<lparr>export_name = ''createMedication'', heading = Sec_Medications,
        verb = POST, path = ''/medications/'', query = []\<rparr>,
      \<lparr>export_name = ''getMedications'', heading = Sec_Medications,
        verb = GET, path = ''/medications/'', query = [''start_date'', ''end_date'']\<rparr>,
      \<lparr>export_name = ''updateMedication'', heading = Sec_Medications,
        verb = PUT, path = ''/medications/{id}'', query = []\<rparr>,
      \<lparr>export_name = ''deleteMedication'', heading = Sec_Medications,
        verb = DELETE, path = ''/medications/{id}'', query = []\<rparr>,
      \<lparr>export_name = ''createMedicationSchedule'', heading = Sec_MedicationSchedules,
        verb = POST, path = ''/medications/schedules'', query = []\<rparr>,
      \<lparr>export_name = ''getMedicationSchedules'', heading = Sec_MedicationSchedules,
        verb = GET, path = ''/medications/schedules'', query = [''active_only'']\<rparr>,
      \<lparr>export_name = ''getMedicationSchedule'', heading = Sec_MedicationSchedules,
        verb = GET, path = ''/medications/schedules/{id}'', query = []\<rparr>,
      \<lparr>export_name = ''updateMedicationSchedule'', heading = Sec_MedicationSchedules,
        verb = PUT, path = ''/medications/schedules/{id}'', query = []\<rparr>,
      \<lparr>export_name = ''deleteMedicationSchedule'', heading = Sec_MedicationSchedules,
        verb = DELETE, path = ''/medications/schedules/{id}'', query = []\<rparr>,
      \<lparr>export_name = ''createSicknessEntry'', heading = Sec_Sickness,
        verb = POST, path = ''/sickness/'', query = []\<rparr>,
      \<lparr>export_name = ''getSicknessEntries'', heading = Sec_Sickness,
        verb = GET, path = ''/sickness/'', query = [''start_date'', ''end_date'']\<rparr>,
      \<lparr>export_name = ''updateSicknessEntry'', heading = Sec_Sickness,
        verb = PUT, path = ''/sickness/{id}'', query = []\<rparr>,
      \<lparr>export_name = ''deleteSicknessEntry'', heading = Sec_Sickness,
        verb = DELETE, path = ''/sickness/{id}'', query = []\<rparr>,
      \<lparr>export_name = ''createSeizure'', heading = Sec_Seizures,
        verb = POST, path = ''/seizures/'', query = []\<rparr>,
      \<lparr>export_name = ''getSeizures'', heading = Sec_Seizures,
        verb = GET, path = ''/seizures/'', query = [''start_date'', ''end_date'']\<rparr>,
      \<lparr>export_name = ''updateSeizure'', heading = Sec_Seizures,
        verb = PUT, path = ''/seizures/{id}'', query = []\<rparr>,
      \<lparr>export_name = ''deleteSeizure'', heading = Sec_Seizures,
        verb = DELETE, path = ''/seizures/{id}'', query = []\<rparr>,
      \<lparr>export_name = ''createDailyNote'', heading = Sec_Notes,
        verb = POST, path = ''/notes/'', query = []\<rparr>,
      \<lparr>export_name = ''getDailyNotes'', heading = Sec_Notes,
        verb = GET, path = ''/notes/'', query = [''start_date'', ''end_date'']\<rparr>,
      \<lparr>export_name = ''getDailyNoteByDate'', heading = Sec_Notes,
        verb = GET, path = ''/notes/{date}'', query = []\<rparr>,
      \<lparr>export_name = ''updateDailyNote'', heading = Sec_Notes,
        verb = PUT, path = ''/notes/{date}'', query = []\<rparr>,
      \<lparr>export_name = ''deleteDailyNote'', heading = Sec_Notes,
        verb = DELETE, path = ''/notes/{date}'', query = []\<rparr>,
      \<lparr>export_name = ''createWaterIntake'', heading = Sec_Water,
        verb = POST, path = ''/water/'', query = []\<rparr>,
      \<lparr>export_name = ''getWaterIntake'', heading = Sec_Water,
        verb = GET, path = ''/water/'', query = [''start_date'', ''end_date'']\<rparr>,
      \<lparr>export_name = ''getDailyWaterTotal'', heading = Sec_Water,
        verb = GET, path = ''/water/daily-total/{date}'', query = []\<rparr>,
      \<lparr>export_name = ''deleteWaterIntake'', heading = Sec_Water,
        verb = DELETE, path = ''/water/{id}'', query = []\<rparr>,
      \<lparr>export_name = ''getDailySummary'', heading = Sec_Dashboard,
        verb = GET, path = ''/dashboard/daily/{date}'', query = []\<rparr>,
      \<lparr>export_name = ''getTodaySummary'', heading = Sec_Dashboard,
        verb = GET, path = ''/dashboard/today'', query = []\<rparr>,
      \<lparr>export_name = ''getDateRangeSummary'', heading = Sec_Dashboard,
        verb = GET, path = ''/dashboard/range'', query = [''start_date'', ''end_date'']\<rparr>,
      \<lparr>export_name = ''exportData'', heading = Sec_Export,
        verb = POST, path = ''/export/'', query = []\<rparr>,
      \<lparr>export_name = ''getAIAnalysisPrompt'', heading = Sec_Export,
        verb = GET, path = ''/export/ai-prompt'', query = [''start_date'', ''end_date'']\<rparr>,
      \<lparr>export_name = ''getAnalysisSummary'', heading = Sec_Export,
        verb = GET, path = ''/export/summary'', query = [''start_date'', ''end_date'']\<rparr>
     ]"

text \<open>The log entities of the data model and the four operations of CRUD.\<close>

datatype log_entity =
  FoodEntry | Medication | MedicationSchedule | SicknessEntry | Seizure | HealthEvent
  | DailyNote | WaterIntake

datatype crud = Create | Read | Update | Delete

definition method_of :: "crud \<Rightarrow> http_method" where
  "method_of op = (case op of Create \<Rightarrow> POST | Read \<Rightarrow> GET | Update \<Rightarrow> PUT | Delete \<Rightarrow> DELETE)"

text \<open>
  The heading of the module that holds the functions of an entity. No heading and no
  function of the module concerns health events.
\<close>

definition section_of :: "log_entity \<Rightarrow> client_section option" where
  "section_of e =
     (case e of
        FoodEntry \<Rightarrow> Some Sec_Food
      | Medication \<Rightarrow> Some Sec_Medications
      | MedicationSchedule \<Rightarrow> Some Sec_MedicationSchedules
      | SicknessEntry \<Rightarrow> Some Sec_Sickness
      | Seizure \<Rightarrow> Some Sec_Seizures
      | HealthEvent \<Rightarrow> None
      | DailyNote \<Rightarrow> Some Sec_Notes
      | WaterIntake \<Rightarrow> Some Sec_Water)"

text \<open>
  The module provides an operation for an entity when it exports a function under the
  entity's heading that calls the operation's HTTP method.
\<close>

definition provides :: "log_entity \<Rightarrow> crud \<Rightarrow> bool" where
  "provides e op =
     (case section_of e of
        None \<Rightarrow> False
      | Some s \<Rightarrow> list_ex (\<lambda>x. heading x = s \<and> verb x = method_of op) client_exports)"

text \<open>The names the module exports, and the names a page imports from it.\<close>

definition exported_names :: "string list" where
  "exported_names = map export_name client_exports"

text \<open>frontend/src/pages/HealthEvents.jsx, line 5.\<close>

definition HealthEvents_imports :: "string list" where
  "HealthEvents_imports =
     [''createHealthEvent'', ''getHealthEvents'', ''updateHealthEvent'', ''deleteHealthEvent'']"






section \<open>Triggering a Garmin sync from the pages\<close>

text \<open>
  \<open>syncGarminData\<close> (api/client.js, lines 42-43) posts the body \<open>{ date, force }\<close> to
  \<open>/garmin/sync\<close>. A date is a string \<open>yyyy-MM-dd\<close>; \<open>null\<close> is \<open>None\<close>. Called
  without arguments, the parameters take their defaults \<open>null\<close> and \<open>false\<close>.
\<close>

record sync_body =
  body_date :: "string option"
  body_force :: bool

record http_request =
  req_verb :: http_method
  req_path :: string
  req_body :: sync_body

definition syncGarminData :: "string option \<Rightarrow> bool \<Rightarrow> http_request" where
  "syncGarminData date force =
     \<lparr>req_verb = POST, req_path = ''/garmin/sync'',
      req_body = \<lparr>body_date = date, body_force = force\<rparr>\<rparr>"

text \<open>
  The answer to a sync request, as the pages read it: fulfilled with
  \<open>response.data.message\<close>, or rejected (bad credentials, network error) with
  \<open>error.response?.data?.detail\<close>; an absent text is \<open>None\<close>.
\<close>

datatype sync_response = Fulfilled "string option" | Rejected "string option"

text \<open>What a handler does, in order: the requests it sends and what it shows to the user.\<close>

datatype message_type = Success | Error

datatype ui_event =
  Request http_request
  | Refetch
  | ConsoleError
  | Alert string
  | SetSyncing bool
  | SetSyncMessage "(message_type \<times> string) option"
  | InvalidateQueries string
  | SetTimeout nat

text \<open>\<open>text || fallback\<close> on a string that may be absent: the empty string is falsy.\<close>

definition or_else :: "string option \<Rightarrow> string \<Rightarrow> string" where
  "or_else v fallback = (case v of None \<Rightarrow> fallback | Some s \<Rightarrow> if s = [] then fallback else s)"

text \<open>
  \<open>handleSync\<close> of the Dashboard page (unnamed/part_000, lines 278-289): one awaited call
  of \<open>syncGarminData()\<close> inside \<open>try\<close>; the \<open>catch\<close> logs and alerts; \<open>finally\<close> resets
  the flag. \<open>refetch\<close> of a query resolves also when the query fails.
\<close>

definition handleSync :: "sync_response \<Rightarrow> ui_event list" where
  "handleSync response =
     [SetSyncing True, Request (syncGarminData None False)]
     @ (case response of
          Fulfilled message \<Rightarrow> [Refetch]
        | Rejected detail \<Rightarrow>
            [ConsoleError,
             Alert ''Failed to sync Garmin data. Please check your credentials in Settings.''])
     @ [SetSyncing False]"

text \<open>
  Modelled from the spec: the number of times a failed mutation is run again is a default
  option of the QueryClient, which is created outside src/ (\<open>useMutation\<close> is given no
  \<open>retry\<close> option in GarminData.jsx, lines 26-40). The spec says that Garmin sync failures
  are reported "with no automatic retry".
\<close>

definition mutation_retry :: nat where
  "mutation_retry = 0"

text \<open>
  \<open>mutate\<close> of a mutation: the mutation function is run, and run again after a rejection
  while retries remain. The server answers the \<open>i\<close>-th request with \<open>server i\<close>. The
  result is the requests sent and the last answer.
\<close>

fun run_mutation ::
  "nat \<Rightarrow> (nat \<Rightarrow> sync_response) \<Rightarrow> nat \<Rightarrow> http_request \<Rightarrow> ui_event list \<times> sync_response"
where
  "run_mutation 0 server i req = ([Request req], server i)"
| "run_mutation (Suc retries) server i req =
     (case server i of
        Fulfilled message \<Rightarrow> ([Request req], Fulfilled message)
      | Rejected detail \<Rightarrow>
          (let (sent, last_response) = run_mutation retries server (Suc i) req
           in (Request req # sent, last_response)))"

text \<open>
  \<open>handleManualSync\<close> of the Garmin page (GarminData.jsx, lines 26-45) with the callbacks
  \<open>onSuccess\<close> and \<open>onError\<close> of \<open>syncMutation\<close>.
\<close>

definition handleManualSync :: "string \<Rightarrow> bool \<Rightarrow> (nat \<Rightarrow> sync_response) \<Rightarrow> ui_event list" where
  "handleManualSync syncDate syncForce server =
     (let (sent, last_response) =
            run_mutation mutation_retry server 0 (syncGarminData (Some syncDate) syncForce)
      in [SetSyncMessage None] @ sent
         @ (case last_response of
              Fulfilled message \<Rightarrow>
                [InvalidateQueries ''garminData'',
                 SetSyncMessage (Some (Success, or_else message ''Data synced successfully!'')),
                 SetTimeout 5000]
            | Rejected detail \<Rightarrow>
                [SetSyncMessage (Some (Error, or_else detail
                   ''Failed to sync data. Please check your Garmin credentials.'')),
                 SetTimeout 5000]))"

text \<open>The sync requests among the events of a handler.\<close>

fun is_sync_request :: "ui_event \<Rightarrow> bool" where
  "is_sync_request (Request r) = (req_verb r = POST \<and> req_path r = ''/garmin/sync'')"
| "is_sync_request _ = False"

definition sync_requests :: "ui_event list \<Rightarrow> ui_event list" where
  "sync_requests events = filter is_sync_request events"

section \<open>Garmin summary statistics (frontend/src/pages/GarminData.jsx, lines 47-53)\<close>

text \<open>
  A row of \<open>garminData\<close> as the page reads it. Every metric may be \<open>null\<close> or absent in the
  JSON; that is \<open>None\<close> here. Only the fields the summary reads are kept.
\<close>

record garmin_row =
  date :: string
  steps :: "int option"
  sleep_duration_seconds :: "int option"
  resting_heart_rate :: "int option"
  body_battery_highest :: "int option"

text \<open>\<open>v || 0\<close> on a metric: \<open>null\<close> and \<open>undefined\<close> are falsy, and so is the number 0.\<close>

definition or0 :: "int option \<Rightarrow> int" where
  "or0 v = (case v of None \<Rightarrow> 0 | Some n \<Rightarrow> (if n = 0 then 0 else n))"

text \<open>\<open>garminData.reduce((sum, d) => sum + (d.f || 0), 0)\<close>, a left fold from 0.\<close>

definition reduce_sum :: "(garmin_row \<Rightarrow> int option) \<Rightarrow> garmin_row list \<Rightarrow> int" where
  "reduce_sum f garminData = foldl (\<lambda>sum d. sum + or0 (f d)) 0 garminData"

text \<open>
  Numbers are taken with their exact rational values (the rounding of IEEE doubles is not
  modelled). JavaScript division never throws: a zero divisor gives \<open>NaN\<close> or an infinity,
  which is \<open>None\<close> here, so that a non-finite average would show in the result.
\<close>

definition js_div :: "rat \<Rightarrow> rat \<Rightarrow> rat option" where
  "js_div a b = (if b = 0 then None else Some (a / b))"

text \<open>\<open>Math.round\<close>: the nearest integer, a tie going up.\<close>

definition Math_round :: "rat \<Rightarrow> int" where
  "Math_round x = \<lfloor>x + 1 / 2\<rfloor>"

text \<open>
  The values of the summary object: a number (all numbers that occur are integers), or the
  string that \<open>x.toFixed(1)\<close> gives, kept as the number \<open>x\<close> it formats.
\<close>

datatype jsval = Num int | ToFixed1 rat

record summary_t =
  avgSteps :: jsval
  avgSleepHours :: jsval
  avgRestingHR :: jsval
  avgBodyBattery :: jsval

definition summary :: "garmin_row list \<Rightarrow> summary_t option" where
  "summary garminData =
     (if length garminData > 0 then
        do {
          a \<leftarrow> js_div (of_int (reduce_sum steps garminData)) (of_nat (length garminData));
          b \<leftarrow> js_div (of_int (reduce_sum sleep_duration_seconds garminData))
                 (of_nat (length garminData));
          b' \<leftarrow> js_div b 3600;
          c \<leftarrow> js_div (of_int (reduce_sum resting_heart_rate garminData))
                 (of_nat (length garminData));
          d \<leftarrow> js_div (of_int (reduce_sum body_battery_highest garminData))
                 (of_nat (length garminData));
          Some \<lparr>avgSteps = Num (Math_round a), avgSleepHours = ToFixed1 b',
                avgRestingHR = Num (Math_round c), avgBodyBattery = Num (Math_round d)\<rparr>
        }
      else Some \<lparr>avgSteps = Num 0, avgSleepHours = Num 0,
                 avgRestingHR = Num 0, avgBodyBattery = Num 0\<rparr>)"

text \<open>The sum of the values that are present, the missing ones left out.\<close>

definition present_sum :: "(garmin_row \<Rightarrow> int option) \<Rightarrow> garmin_row list \<Rightarrow> int" where
  "present_sum f garminData = sum_list (List.map_filter f garminData)"

section \<open>Quick-add list of the food log (the FoodLog page, unnamed/part_002, lines 36-50)\<close>

text \<open>
  A food entry as the page reads and writes it (\<open>handleEdit\<close>, \<open>handleSubmit\<close>). The
  description is a string in every entry the form can create.
\<close>

record food_entry =
  entry_id :: nat
  entry_date :: string
  time :: string
  meal_type :: string
  description :: string
  is_drink :: bool
  calories :: "int option"
  volume_ml :: "int option"
  entry_notes :: "string option"

text \<open>
  A JavaScript \<open>Map\<close> keeps its entries in insertion order: an association list to which
  \<open>set\<close> appends a new key, and in which it replaces the value of a key already there.
\<close>

type_synonym ('k, 'v) js_map = "('k \<times> 'v) list"

definition map_has :: "('k, 'v) js_map \<Rightarrow> 'k \<Rightarrow> bool" where
  "map_has m k = (k \<in> set (map fst m))"

definition map_set :: "('k, 'v) js_map \<Rightarrow> 'k \<Rightarrow> 'v \<Rightarrow> ('k, 'v) js_map" where
  "map_set m k v =
     (if map_has m k then map (\<lambda>(k', v'). if k' = k then (k', v) else (k', v')) m
      else m @ [(k, v)])"

definition map_values :: "('k, 'v) js_map \<Rightarrow> 'v list" where
  "map_values m = map snd m"

text \<open>
  \<open>String.prototype.toLowerCase\<close> is a builtin of the language: it lower-cases every
  letter of Unicode, by the case mappings of the Unicode standard. It is not defined here
  but is the parameter \<open>toLowerCase\<close> of the two functions that follow, so that what is
  proved of them holds whatever the builtin does to a string, and so for the builtin. Two
  descriptions are the same up to case when the builtin maps them to the same string.

  The body of the \<open>forEach\<close> callback, from the map \<open>seen\<close> to the map after it.
\<close>

definition seen_step ::
  "(string \<Rightarrow> string) \<Rightarrow> (string, food_entry) js_map \<Rightarrow> food_entry
     \<Rightarrow> (string, food_entry) js_map" where
  "seen_step toLowerCase seen entry =
     (let key = toLowerCase (description entry)
      in if \<not> map_has seen key then map_set seen key entry else seen)"

text \<open>\<open>Array.from(seen.values()).slice(0, 10)\<close> after the loop over \<open>response.data\<close>.\<close>

definition recentEntries :: "(string \<Rightarrow> string) \<Rightarrow> food_entry list \<Rightarrow> food_entry list" where
  "recentEntries toLowerCase data =
     take 10 (map_values (foldl (seen_step toLowerCase) [] data))"

text \<open>
  What the claim describes, independently of the loop: the elements whose key does not occur
  at an earlier position, in the order of the list.
\<close>

definition first_occurrences :: "('a \<Rightarrow> 'k) \<Rightarrow> 'a list \<Rightarrow> 'a list" where
  "first_occurrences key xs =
     map (\<lambda>i. xs ! i)
       (filter (\<lambda>i. key (xs ! i) \<notin> set (map key (take i xs))) [0..<length xs])"

text \<open>An entry with a given id and description, for the concrete evaluations below.\<close>

definition example_entry :: "nat \<Rightarrow> string \<Rightarrow> food_entry" where
  "example_entry i d =
     \<lparr>entry_id = i, entry_date = ''2024-05-01'', time = ''2024-05-01T12:00'',
      meal_type = ''lunch'', description = d, is_drink = False, calories = None,
      volume_ml = None, entry_notes = None\<rparr>"

text \<open>
  For the concrete evaluations below, whose descriptions are written in ASCII letters: on
  such a string the builtin maps the letters A to Z to a to z and keeps every other
  character, which is this function. It stands for the builtin on those strings only.
\<close>

definition lower_ascii_char :: "char \<Rightarrow> char" where
  "lower_ascii_char c =
     (let n = (of_char c :: nat) in if 65 \<le> n \<and> n \<le> 90 then char_of (n + 32) else c)"

definition lower_ascii :: "string \<Rightarrow> string" where
  "lower_ascii s = map lower_ascii_char s"

section \<open>Saving the settings (the Settings page, unnamed/part_000, lines 104-153)\<close>

text \<open>The state \<open>formData\<close> of the form: three strings, the values of the three inputs.\<close>

record settings_form =
  email :: string
  garmin_username :: string
  garmin_password :: string

text \<open>
  A JavaScript object with string values: its own keys in insertion order. The spread
  \<open>{ ...formData }\<close> copies the three keys in the order of the state object.
\<close>

type_synonym js_object = "(string \<times> string) list"

definition spread :: "settings_form \<Rightarrow> js_object" where
  "spread formData =
     [(''email'', email formData),
      (''garmin_username'', garmin_username formData),
      (''garmin_password'', garmin_password formData)]"

text \<open>\<open>data.k\<close> (\<open>undefined\<close> is \<open>None\<close>), \<open>delete data.k\<close>, and \<open>!v\<close> on such a value.\<close>

definition js_get :: "js_object \<Rightarrow> string \<Rightarrow> string option" where
  "js_get data k = map_of data k"

definition js_delete :: "js_object \<Rightarrow> string \<Rightarrow> js_object" where
  "js_delete data k = filter (\<lambda>(k', v). k' \<noteq> k) data"

definition js_not :: "string option \<Rightarrow> bool" where
  "js_not v = (case v of None \<Rightarrow> True | Some s \<Rightarrow> s = [])"

text \<open>
  \<open>handleSubmit\<close>: the object handed to \<open>updateMutation.mutate\<close>, which \<open>updateUser\<close>
  (api/client.js, line 38) sends as the body of \<open>PUT /user/me\<close>.
\<close>

definition handleSubmit :: "settings_form \<Rightarrow> js_object" where
  "handleSubmit formData =
     (let data = spread formData
      in if js_not (js_get data ''garmin_password'')
         then js_delete data ''garmin_password''
         else data)"

text \<open>
  The stored profile. The password is stored encrypted; the encryption is a parameter.
\<close>

record 'c user =
  user_email :: string
  user_garmin_username :: string
  user_garmin_password :: "'c option"

text \<open>
  Modelled from the spec: the handler of \<open>PUT /user/me\<close> is part of the backend, which is
  not under src/. The spec gives the user a single profile that "holds encrypted Garmin
  credentials", and the Settings page tells the user "Your password is encrypted before
  storage. Leave blank to keep existing password.": a key of the body replaces the stored
  field, and a field whose key is absent keeps its stored value.
\<close>

definition put_user_me :: "(string \<Rightarrow> 'c) \<Rightarrow> js_object \<Rightarrow> 'c user \<Rightarrow> 'c user" where
  "put_user_me encrypt body u =
     \<lparr>user_email = (case js_get body ''email'' of None \<Rightarrow> user_email u | Some v \<Rightarrow> v),
      user_garmin_username =
        (case js_get body ''garmin_username'' of None \<Rightarrow> user_garmin_username u | Some v \<Rightarrow> v),
      user_garmin_password =
        (case js_get body ''garmin_password'' of None \<Rightarrow> user_garmin_password u
         | Some v \<Rightarrow> Some (encrypt v))\<rparr>"

section \<open>The backend store, modelled from the spec\<close>

text \<open>
  The backend (the FastAPI routers, the sync job and the database) is not under src/; src/
  holds the frontend that calls it. The definitions of this section follow the words of
  the spec. A calendar date is the string \<open>yyyy-MM-dd\<close> that the client sends.
\<close>

subsection \<open>Garmin daily metrics and the sync\<close>

text \<open>
  Modelled from the spec: the table of GarminDailyMetric rows, which is not under src/.
  "GarminDailyMetric: one row per calendar date; upserted on sync (steps, heart rate, sleep
  stages, stress, body battery)". A row is a date with the metrics of the day; the table is
  a list, so that two rows of one date can be told from one.
\<close>

type_synonym 'm garmin_store = "(string \<times> 'm) list"

text \<open>
  Modelled from the spec: the test "already present" of the sync job, which is not under
  src/: the table has a row of the date.
\<close>

definition has_row :: "string \<Rightarrow> 'm garmin_store \<Rightarrow> bool" where
  "has_row D store = (D \<in> set (map fst store))"

text \<open>
  Modelled from the spec: the "upsert-by-date database write" of the sync job, which is
  not under src/: the row of the date takes the new metrics if there is one, and a new row
  is added otherwise.
\<close>

definition upsert :: "string \<Rightarrow> 'm \<Rightarrow> 'm garmin_store \<Rightarrow> 'm garmin_store" where
  "upsert D m store =
     (if has_row D store
      then map (\<lambda>(d, old). if d = D then (d, m) else (d, old)) store
      else store @ [(D, m)])"

text \<open>
  Modelled from the spec: the handler of \<open>POST /garmin/sync\<close> and the scheduled job, which
  are not under src/. "sync GarminData for date D, skip if already present unless
  force=true, else write computed daily aggregate". The daily aggregate computed from
  Garmin Connect is \<open>garmin D\<close>; it is \<open>None\<close> when the sync fails ("bad credentials,
  network error"), and then nothing is written.
\<close>

definition sync ::
  "(string \<Rightarrow> 'm option) \<Rightarrow> string \<Rightarrow> bool \<Rightarrow> 'm garmin_store \<Rightarrow> 'm garmin_store" where
  "sync garmin D force store =
     (if has_row D store \<and> \<not> force then store
      else case garmin D of
             None \<Rightarrow> store
           | Some aggregate \<Rightarrow> upsert D aggregate store)"

text \<open>At most one row per calendar date.\<close>

definition one_row_per_date :: "'m garmin_store \<Rightarrow> bool" where
  "one_row_per_date store = distinct (map fst store)"

text \<open>
  The states of the table that can be reached: the empty table, and a reachable table
  after a sync of any date, forced or not, with any answer of Garmin Connect.
\<close>

inductive reachable :: "'m garmin_store \<Rightarrow> bool" where
  initial: "reachable []"
| after_sync: "reachable store \<Longrightarrow> reachable (sync garmin D force store)"

subsection \<open>The daily summary\<close>

text \<open>
  Modelled from the spec: the tables of the logs that the daily summary reads, which are
  not under src/. Every entry is "timestamped"; it is kept with its date. An entry of the
  water log is its volume in millilitres.
\<close>

record ('m, 'e) health_store =
  garmin_table :: "'m garmin_store"
  activity_table :: "(string \<times> 'e) list"
  food_table :: "(string \<times> 'e) list"
  medication_table :: "(string \<times> 'e) list"
  seizure_table :: "(string \<times> 'e) list"
  water_table :: "(string \<times> nat) list"

text \<open>
  The summary object, with the fields that the Dashboard page reads from it
  (unnamed/part_000, lines 307 and 408-434).
\<close>

record ('m, 'e) daily_summary =
  garmin_data :: "'m option"
  food_entries :: "'e list"
  medication_count :: nat
  total_water_ml :: nat
  seizures :: "'e list"
  activities :: "'e list"

text \<open>The entries of a table logged on a date.\<close>

definition logged_on :: "string \<Rightarrow> (string \<times> 'a) list \<Rightarrow> 'a list" where
  "logged_on D tbl = map snd (filter (\<lambda>(d, x). d = D) tbl)"

text \<open>
  Modelled from the spec: the handler of \<open>GET /dashboard/daily/{date}\<close>, which is not under
  src/. "Daily summary: read-time aggregation joining that day's logged entries with the
  corresponding Garmin metric row". It returns the summary and the store after the call.
\<close>

definition get_daily_summary ::
  "string \<Rightarrow> ('m, 'e) health_store \<Rightarrow> ('m, 'e) daily_summary \<times> ('m, 'e) health_store" where
  "get_daily_summary D store =
     (\<lparr>garmin_data = map_of (garmin_table store) D,
       food_entries = logged_on D (food_table store),
       medication_count = length (logged_on D (medication_table store)),
       total_water_ml = sum_list (logged_on D (water_table store)),
       seizures = logged_on D (seizure_table store),
       activities = logged_on D (activity_table store)\<rparr>,
      store)"

text \<open>
  The four cards "Daily Log Summary" of the Dashboard page (unnamed/part_000, lines
  402-426), from the data \<open>summary\<close> of the query (\<open>undefined\<close> is \<open>None\<close>):
  \<open>summary?.food_entries?.length || 0\<close>, \<open>summary?.medication_count || 0\<close>,
  \<open>summary?.total_water_ml ? (summary.total_water_ml / 1000).toFixed(1) : 0\<close> and
  \<open>summary?.seizures?.length || 0\<close>.
\<close>

record daily_log_cards =
  meals_logged :: nat
  medications_taken :: nat
  water_intake :: jsval
  seizures_shown :: nat

definition Daily_Log_Summary :: "('m, 'e) daily_summary option \<Rightarrow> daily_log_cards" where
  "Daily_Log_Summary query_data =
     \<lparr>meals_logged = (case query_data of None \<Rightarrow> 0 | Some s \<Rightarrow> length (food_entries s)),
      medications_taken = (case query_data of None \<Rightarrow> 0 | Some s \<Rightarrow> medication_count s),
      water_intake =
        (case query_data of
           None \<Rightarrow> Num 0
         | Some s \<Rightarrow>
             if total_water_ml s \<noteq> 0 then ToFixed1 (of_nat (total_water_ml s) / 1000)
             else Num 0),
      seizures_shown = (case query_data of None \<Rightarrow> 0 | Some s \<Rightarrow> length (seizures s))\<rparr>"

text \<open>The store cut down to the rows whose date satisfies a predicate.\<close>

definition only_dates :: "(string \<Rightarrow> bool) \<Rightarrow> (string \<times> 'a) list \<Rightarrow> (string \<times> 'a) list" where
  "only_dates P tbl = filter (\<lambda>(d, x). P d) tbl"

definition restrict_store ::
  "(string \<Rightarrow> bool) \<Rightarrow> ('m, 'e) health_store \<Rightarrow> ('m, 'e) health_store" where
  "restrict_store P store =
     \<lparr>garmin_table = only_dates P (garmin_table store),
      activity_table = only_dates P (activity_table store),
      food_table = only_dates P (food_table store),
      medication_table = only_dates P (medication_table store),
      seizure_table = only_dates P (seizure_table store),
      water_table = only_dates P (water_table store)\<rparr>"

text \<open>A store with entries on two days, for the concrete evaluations below.\<close>

definition example_store :: "(nat, string) health_store" where
  "example_store =
     \<lparr>garmin_table = [(''2024-05-01'', 8000), (''2024-05-02'', 9500)],
      activity_table = [(''2024-05-02'', ''run'')],
      food_table = [(''2024-05-01'', ''soup''), (''2024-05-02'', ''rice''),
                    (''2024-05-02'', ''tea'')],
      medication_table = [(''2024-05-02'', ''morning dose'')],
      seizure_table = [],
      water_table = [(''2024-05-01'', 500), (''2024-05-02'', 250), (''2024-05-02'', 300)]\<rparr>"

subsection \<open>The logs and their CRUD operations\<close>

text \<open>
  The spec gives the logs "CRUD via REST" on "resources keyed by date or numeric id". Which
  key and which operations a log has is read off the client (api/client.js, lines 49-98):
  the food, medication, sickness and seizure logs are read by a range of dates and
  updated and deleted by id; the water log is read by a range of dates and deleted by id,
  and has no update; the medication schedules are listed by \<open>active_only\<close>, read by id,
  and updated and deleted by id; the daily notes are read by a range of dates and read,
  updated and deleted by their date. There is one model of a table for the logs keyed by
  id and one for the log keyed by date. An entry carries its date as the string
  \<open>yyyy-MM-dd\<close>; the order of these strings is the order of the days.
\<close>

text \<open>
  Modelled from the spec: the table of a log keyed by numeric id, which is not under src/.
  "independent append-mostly logs, each owned by the user, timestamped, CRUD via REST",
  "resources keyed by date or numeric id". A row is a numeric id with the entry; the table
  knows the next id to give.
\<close>

record 'e table =
  next_id :: nat
  rows :: "(nat \<times> 'e) list"

definition empty_table :: "'e table" where
  "empty_table = \<lparr>next_id = 1, rows = []\<rparr>"

definition has_id :: "nat \<Rightarrow> 'e table \<Rightarrow> bool" where
  "has_id i t = (i \<in> set (map fst (rows t)))"

text \<open>
  Modelled from the spec: the handler of \<open>POST\<close> on a log keyed by id (\<open>/food/\<close>,
  \<open>/medications/\<close>, \<open>/medications/schedules\<close>, \<open>/sickness/\<close>, \<open>/seizures/\<close>, \<open>/water/\<close>),
  which is not under src/. An entry that fails the validation is refused ("4xx
  validation"), which is \<open>None\<close>; a valid entry is stored under a new id, which is
  returned.
\<close>

definition create_entry ::
  "('e \<Rightarrow> bool) \<Rightarrow> 'e \<Rightarrow> 'e table \<Rightarrow> (nat \<times> 'e table) option" where
  "create_entry valid E t =
     (if valid E
      then Some (next_id t, \<lparr>next_id = Suc (next_id t), rows = rows t @ [(next_id t, E)]\<rparr>)
      else None)"




text \<open>
  Modelled from the spec: the handler of \<open>PUT\<close> by id (\<open>/food/{id}\<close>,
  \<open>/medications/{id}\<close>, \<open>/medications/schedules/{id}\<close>, \<open>/sickness/{id}\<close>,
  \<open>/seizures/{id}\<close>; the client has no such request for the water log), which is not
  under src/: the row of the id takes the new data; an unknown id or invalid data is
  refused.
\<close>

definition update_entry :: "('e \<Rightarrow> bool) \<Rightarrow> nat \<Rightarrow> 'e \<Rightarrow> 'e table \<Rightarrow> 'e table option" where
  "update_entry valid i D t =
     (if has_id i t \<and> valid D
      then Some (t\<lparr>rows := map (\<lambda>(j, e). if j = i then (j, D) else (j, e)) (rows t)\<rparr>)
      else None)"

text \<open>
  Modelled from the spec: the handler of \<open>DELETE\<close> by id (\<open>/food/{id}\<close>,
  \<open>/medications/{id}\<close>, \<open>/medications/schedules/{id}\<close>, \<open>/sickness/{id}\<close>,
  \<open>/seizures/{id}\<close>, \<open>/water/{id}\<close>), which is not under src/: the row of the id is
  removed; an unknown id is refused.
\<close>

definition delete_entry :: "nat \<Rightarrow> 'e table \<Rightarrow> 'e table option" where
  "delete_entry i t =
     (if has_id i t
      then Some (t\<lparr>rows := filter (\<lambda>(j, e). j \<noteq> i) (rows t)\<rparr>)
      else None)"

text \<open>Every id in use is below the next id to give: it holds of the empty table and is kept.\<close>

definition fresh_ids :: "'e table \<Rightarrow> bool" where
  "fresh_ids t = list_all (\<lambda>r. fst r < next_id t) (rows t)"








section \<open>Properties of the API client module\<close>

lemma HealthEvents_imports_not_exported:
  "set HealthEvents_imports \<inter> set exported_names = {}"
  by (simp add: HealthEvents_imports_def exported_names_def client_exports_def)

text \<open>
  C4, as stated, fails. The module exports no function that updates a water intake: the
  functions under the heading Water are a POST, two GET and a DELETE. And it exports none
  of the four functions for health events, whose names the page HealthEvents.jsx imports
  from it.
\<close>

theorem C4_missing_exports_counterexample:
  "\<not> provides WaterIntake Update
   \<and> \<not> provides HealthEvent Create \<and> \<not> provides HealthEvent Read
   \<and> \<not> provides HealthEvent Update \<and> \<not> provides HealthEvent Delete
   \<and> ''createHealthEvent'' \<notin> set exported_names
   \<and> ''getHealthEvents'' \<notin> set exported_names
   \<and> ''updateHealthEvent'' \<notin> set exported_names
   \<and> ''deleteHealthEvent'' \<notin> set exported_names"
proof -
  have water: "\<not> provides WaterIntake Update"
    by (simp add: provides_def section_of_def method_of_def client_exports_def)
  have health: "\<not> provides HealthEvent op" for op
    by (simp add: provides_def section_of_def)
  have names: "''createHealthEvent'' \<notin> set exported_names"
    "''getHealthEvents'' \<notin> set exported_names"
    "''updateHealthEvent'' \<notin> set exported_names"
    "''deleteHealthEvent'' \<notin> set exported_names"
    by (simp_all add: exported_names_def client_exports_def)
  from water health names show ?thesis by blast
qed

text \<open>
  C4, amended. For FoodEntry, Medication, MedicationSchedule, SicknessEntry, Seizure and
  DailyNote the module exports a create, a read, an update and a delete function; for
  WaterIntake it exports a create, a read and a delete function and no update function.
\<close>

theorem C4_crud_exports:
  "(e \<in> {FoodEntry, Medication, MedicationSchedule, SicknessEntry, Seizure, DailyNote}
      \<longrightarrow> provides e op)
   \<and> provides WaterIntake Create \<and> provides WaterIntake Read
   \<and> provides WaterIntake Delete \<and> \<not> provides WaterIntake Update"
proof -
  have water: "provides WaterIntake Create" "provides WaterIntake Read"
    "provides WaterIntake Delete" "\<not> provides WaterIntake Update"
    by (simp_all add: provides_def section_of_def method_of_def client_exports_def)
  have full: "provides e op"
    if "e \<in> {FoodEntry, Medication, MedicationSchedule, SicknessEntry, Seizure, DailyNote}"
  proof (cases op)
    case Create
    with that show ?thesis
      by (auto simp: provides_def section_of_def method_of_def client_exports_def)
  next
    case Read
    with that show ?thesis
      by (auto simp: provides_def section_of_def method_of_def client_exports_def)
  next
    case Update
    with that show ?thesis
      by (auto simp: provides_def section_of_def method_of_def client_exports_def)
  next
    case Delete
    with that show ?thesis
      by (auto simp: provides_def section_of_def method_of_def client_exports_def)
  qed
  from water full show ?thesis by blast
qed

theorem C4_crud_exports_witness:
  "Seizure \<in> {FoodEntry, Medication, MedicationSchedule, SicknessEntry, Seizure, DailyNote}
   \<and> provides Seizure Update \<and> provides WaterIntake Delete"
  using C4_crud_exports [of Seizure Update] by simp

section \<open>Properties of triggering a sync\<close>

text \<open>
  C3. Whatever the answer, one click sends exactly one sync request, from the Dashboard
  and from the Garmin page. A rejected request is reported to the user (an alert on the
  Dashboard, the error message of the Garmin page, which shows the detail of the error or
  a fixed text), and nothing is sent after it.
\<close>

theorem C3_one_request_failure_reported:
  "length (sync_requests (handleSync response)) = 1
   \<and> length (sync_requests (handleManualSync syncDate syncForce server)) = 1
   \<and> (response = Rejected detail \<longrightarrow>
        handleSync response =
          [SetSyncing True, Request (syncGarminData None False), ConsoleError,
           Alert ''Failed to sync Garmin data. Please check your credentials in Settings.'',
           SetSyncing False])
   \<and> (server 0 = Rejected detail \<longrightarrow>
        handleManualSync syncDate syncForce server =
          [SetSyncMessage None, Request (syncGarminData (Some syncDate) syncForce),
           SetSyncMessage (Some (Error, or_else detail
             ''Failed to sync data. Please check your Garmin credentials.'')),
           SetTimeout 5000])"
proof -
  have dash: "length (sync_requests (handleSync response)) = 1"
    by (cases response) (simp_all add: handleSync_def sync_requests_def syncGarminData_def)
  have page: "length (sync_requests (handleManualSync syncDate syncForce server)) = 1"
    by (cases "server 0")
      (simp_all add: handleManualSync_def mutation_retry_def sync_requests_def
         syncGarminData_def)
  have dash_fail: "handleSync (Rejected detail) =
          [SetSyncing True, Request (syncGarminData None False), ConsoleError,
           Alert ''Failed to sync Garmin data. Please check your credentials in Settings.'',
           SetSyncing False]"
    by (simp add: handleSync_def)
  have page_fail: "handleManualSync syncDate syncForce server =
          [SetSyncMessage None, Request (syncGarminData (Some syncDate) syncForce),
           SetSyncMessage (Some (Error, or_else detail
             ''Failed to sync data. Please check your Garmin credentials.'')),
           SetTimeout 5000]" if "server 0 = Rejected detail"
    using that by (simp add: handleManualSync_def mutation_retry_def)
  from dash page dash_fail page_fail show ?thesis by blast
qed

theorem C3_one_request_failure_reported_witness:
  "handleSync (Rejected (Some ''Invalid credentials'')) =
          [SetSyncing True, Request (syncGarminData None False), ConsoleError,
           Alert ''Failed to sync Garmin data. Please check your credentials in Settings.'',
           SetSyncing False]
   \<and> handleManualSync ''2024-05-01'' True (\<lambda>i. Rejected (Some ''Invalid credentials'')) =
          [SetSyncMessage None, Request (syncGarminData (Some ''2024-05-01'') True),
           SetSyncMessage (Some (Error, ''Invalid credentials'')),
           SetTimeout 5000]
   \<and> length (sync_requests
         (handleManualSync ''2024-05-01'' True (\<lambda>i. Rejected (Some ''Invalid credentials'')))) = 1"
proof -
  let ?r = "Rejected (Some ''Invalid credentials'')"
  note inst = C3_one_request_failure_reported
                [of ?r "''2024-05-01''" True "\<lambda>i. ?r" "Some ''Invalid credentials''"]
  have A: "handleSync ?r =
          [SetSyncing True, Request (syncGarminData None False), ConsoleError,
           Alert ''Failed to sync Garmin data. Please check your credentials in Settings.'',
           SetSyncing False]"
    using inst by blast
  have B: "handleManualSync ''2024-05-01'' True (\<lambda>i. ?r) =
          [SetSyncMessage None, Request (syncGarminData (Some ''2024-05-01'') True),
           SetSyncMessage (Some (Error, or_else (Some ''Invalid credentials'')
             ''Failed to sync data. Please check your Garmin credentials.'')),
           SetTimeout 5000]"
    using inst by blast
  have B': "or_else (Some ''Invalid credentials'')
              ''Failed to sync data. Please check your Garmin credentials.''
            = ''Invalid credentials''"
    by (simp add: or_else_def)
  have C: "length (sync_requests (handleManualSync ''2024-05-01'' True (\<lambda>i. ?r))) = 1"
    using inst by blast
  from A B C show ?thesis unfolding B' by blast
qed

section \<open>Properties of the Garmin summary statistics\<close>

lemma or0_simps: "or0 None = 0" "or0 (Some n) = n"
  by (simp_all add: or0_def)

lemma foldl_or0_shift:
  "foldl (\<lambda>sum d. sum + or0 (f d)) acc xs = acc + sum_list (List.map_filter f xs)"
proof (induction xs arbitrary: acc)
  case Nil
  show ?case by (simp add: List.map_filter_simps)
next
  case (Cons x xs)
  show ?case
    by (cases "f x") (simp_all add: Cons.IH List.map_filter_simps or0_simps)
qed

lemma reduce_sum_present: "reduce_sum f xs = present_sum f xs"
  by (simp add: reduce_sum_def present_sum_def foldl_or0_shift)

text \<open>
  C10. The summary is defined on every list and never holds a non-finite number. On the
  empty list it is the constant object of zeros; on a non-empty list each average is the
  sum of the present values (a missing value counts 0) divided by the length of the list.
\<close>

theorem C10_summary_total:
  "summary garminData =
     Some (if garminData = []
           then \<lparr>avgSteps = Num 0, avgSleepHours = Num 0,
                 avgRestingHR = Num 0, avgBodyBattery = Num 0\<rparr>
           else \<lparr>avgSteps = Num (Math_round
                    (of_int (present_sum steps garminData) / of_nat (length garminData))),
                 avgSleepHours = ToFixed1
                    (of_int (present_sum sleep_duration_seconds garminData)
                       / of_nat (length garminData) / 3600),
                 avgRestingHR = Num (Math_round
                    (of_int (present_sum resting_heart_rate garminData)
                       / of_nat (length garminData))),
                 avgBodyBattery = Num (Math_round
                    (of_int (present_sum body_battery_highest garminData)
                       / of_nat (length garminData)))\<rparr>)"
  by (cases garminData) (simp_all add: summary_def js_div_def reduce_sum_present)

theorem C10_summary_total_witness:
  "summary [\<lparr>date = ''2024-05-01'', steps = Some 10001, sleep_duration_seconds = Some 27000,
               resting_heart_rate = None, body_battery_highest = Some 80\<rparr>,
            \<lparr>date = ''2024-05-02'', steps = None, sleep_duration_seconds = Some 25200,
               resting_heart_rate = Some 61, body_battery_highest = Some 75\<rparr>]
     = Some \<lparr>avgSteps = Num 5001, avgSleepHours = ToFixed1 (29 / 4),
              avgRestingHR = Num 31, avgBodyBattery = Num 78\<rparr>
   \<and> summary [] = Some \<lparr>avgSteps = Num 0, avgSleepHours = Num 0,
                        avgRestingHR = Num 0, avgBodyBattery = Num 0\<rparr>"
  using C10_summary_total
          [of "[\<lparr>date = ''2024-05-01'', steps = Some 10001, sleep_duration_seconds = Some 27000,
                  resting_heart_rate = None, body_battery_highest = Some 80\<rparr>,
                \<lparr>date = ''2024-05-02'', steps = None, sleep_duration_seconds = Some 25200,
                  resting_heart_rate = Some 61, body_battery_highest = Some 75\<rparr>]"]
        C10_summary_total [of "[]"]
  by (simp add: present_sum_def Math_round_def)

section \<open>Properties of the quick-add list\<close>

lemma first_occurrences_Nil: "first_occurrences key [] = []"
  by (simp add: first_occurrences_def)

lemma first_occurrences_snoc:
  "first_occurrences key (xs @ [x]) =
     first_occurrences key xs @ (if key x \<in> set (map key xs) then [] else [x])"
proof -
  let ?P = "\<lambda>ys i. key (ys ! i) \<notin> set (map key (take i ys))"
  have idx: "filter (?P (xs @ [x])) [0..<length xs] = filter (?P xs) [0..<length xs]"
    by (rule filter_cong) (auto simp: nth_append)
  have val: "map (\<lambda>i. (xs @ [x]) ! i) (filter (?P xs) [0..<length xs])
               = map (\<lambda>i. xs ! i) (filter (?P xs) [0..<length xs])"
    by (rule map_cong) (auto simp: nth_append)
  have last: "?P (xs @ [x]) (length xs) \<longleftrightarrow> key x \<notin> set (map key xs)"
    by simp
  have "first_occurrences key (xs @ [x]) =
          map (\<lambda>i. (xs @ [x]) ! i)
            (filter (?P (xs @ [x])) [0..<length xs] @ filter (?P (xs @ [x])) [length xs])"
    by (simp add: first_occurrences_def)
  also have "\<dots> = map (\<lambda>i. (xs @ [x]) ! i) (filter (?P xs) [0..<length xs])
                   @ map (\<lambda>i. (xs @ [x]) ! i) (filter (?P (xs @ [x])) [length xs])"
    by (simp only: idx map_append)
  also have "\<dots> = first_occurrences key xs @ (if key x \<in> set (map key xs) then [] else [x])"
    unfolding val first_occurrences_def using last by simp
  finally show ?thesis .
qed

lemma seen_step_snd:
  "map snd (seen_step toLowerCase seen e) =
     map snd seen @ (if toLowerCase (description e) \<in> set (map fst seen) then [] else [e])"
  by (simp add: seen_step_def map_has_def map_set_def Let_def)

lemma seen_step_keys:
  "set (map fst (seen_step toLowerCase seen e))
     = insert (toLowerCase (description e)) (set (map fst seen))"
  by (auto simp: seen_step_def map_has_def map_set_def Let_def)

lemma seen_loop:
  "set (map fst (foldl (seen_step toLowerCase) [] xs))
     = set (map (\<lambda>e. toLowerCase (description e)) xs)
   \<and> map snd (foldl (seen_step toLowerCase) [] xs)
     = first_occurrences (\<lambda>e. toLowerCase (description e)) xs"
proof (induction xs rule: rev_induct)
  case Nil
  show ?case by (simp add: first_occurrences_Nil)
next
  case (snoc x xs)
  then show ?case
    by (simp add: seen_step_snd seen_step_keys first_occurrences_snoc del: set_map)
qed

lemma recentEntries_eq:
  "recentEntries toLowerCase data
     = take 10 (first_occurrences (\<lambda>e. toLowerCase (description e)) data)"
  by (simp add: recentEntries_def map_values_def seen_loop)

lemma distinct_first_occurrences: "distinct (map key (first_occurrences key xs))"
proof (induction xs rule: rev_induct)
  case Nil
  show ?case by (simp add: first_occurrences_Nil)
next
  case (snoc x xs)
  have sub: "set (first_occurrences key xs) \<subseteq> set xs"
    by (auto simp: first_occurrences_def)
  with snoc show ?case
    by (auto simp: first_occurrences_snoc)
qed

lemma keys_first_occurrences: "set (map key (first_occurrences key xs)) = set (map key xs)"
  by (induction xs rule: rev_induct) (auto simp: first_occurrences_snoc first_occurrences_Nil)

text \<open>
  C8. Whatever string the builtin \<open>toLowerCase\<close> gives for a description: the quick-add
  list has at most 10 entries. It is the first 10 of the entries whose lower-cased
  description does not occur earlier in the fetched list, in the order of the fetched
  list, so its lower-cased descriptions are pairwise different; and when there are at
  most 10 such entries, every description of the fetched list is represented.
\<close>

theorem C8_recentEntries:
  "length (recentEntries toLowerCase data) \<le> 10
   \<and> recentEntries toLowerCase data
       = take 10 (first_occurrences (\<lambda>e. toLowerCase (description e)) data)
   \<and> distinct (map (\<lambda>e. toLowerCase (description e)) (recentEntries toLowerCase data))
   \<and> (length (first_occurrences (\<lambda>e. toLowerCase (description e)) data) \<le> 10 \<longrightarrow>
        set (map (\<lambda>e. toLowerCase (description e)) (recentEntries toLowerCase data))
          = set (map (\<lambda>e. toLowerCase (description e)) data))"
proof -
  let ?key = "\<lambda>e. toLowerCase (description e)"
  have eq: "recentEntries toLowerCase data = take 10 (first_occurrences ?key data)"
    by (rule recentEntries_eq)
  have len: "length (recentEntries toLowerCase data) \<le> 10"
    by (simp add: eq)
  have dist: "distinct (map ?key (recentEntries toLowerCase data))"
    unfolding eq take_map [symmetric]
    by (rule distinct_take) (rule distinct_first_occurrences)
  have all: "set (map ?key (recentEntries toLowerCase data)) = set (map ?key data)"
    if "length (first_occurrences ?key data) \<le> 10"
    using that keys_first_occurrences [of ?key data] by (simp add: eq)
  from len eq dist all show ?thesis by blast
qed

theorem C8_recentEntries_witness:
  "length (first_occurrences (\<lambda>e. lower_ascii (description e))
      [example_entry 1 ''Apple'', example_entry 2 ''Tea'',
       example_entry 3 ''apple'', example_entry 4 ''TEA'']) \<le> 10
   \<and> recentEntries lower_ascii
         [example_entry 1 ''Apple'', example_entry 2 ''Tea'',
          example_entry 3 ''apple'', example_entry 4 ''TEA'']
       = [example_entry 1 ''Apple'', example_entry 2 ''Tea'']
   \<and> set (map (\<lambda>e. lower_ascii (description e))
          (recentEntries lower_ascii
             [example_entry 1 ''Apple'', example_entry 2 ''Tea'',
              example_entry 3 ''apple'', example_entry 4 ''TEA'']))
       = set (map (\<lambda>e. lower_ascii (description e))
          [example_entry 1 ''Apple'', example_entry 2 ''Tea'',
           example_entry 3 ''apple'', example_entry 4 ''TEA''])"
proof -
  let ?ex = "[example_entry 1 ''Apple'', example_entry 2 ''Tea'',
              example_entry 3 ''apple'', example_entry 4 ''TEA'']"
  let ?key = "\<lambda>e. lower_ascii (description e)"
  have fo: "first_occurrences ?key ?ex = [example_entry 1 ''Apple'', example_entry 2 ''Tea'']"
    by code_simp
  have h: "length (first_occurrences ?key ?ex) \<le> 10"
    by (simp only: fo) simp
  have r: "recentEntries lower_ascii ?ex = take 10 (first_occurrences ?key ?ex)"
    using C8_recentEntries [of lower_ascii ?ex] by blast
  have s: "set (map ?key (recentEntries lower_ascii ?ex)) = set (map ?key ?ex)"
    using C8_recentEntries [of lower_ascii ?ex] h by blast
  have r': "recentEntries lower_ascii ?ex = [example_entry 1 ''Apple'', example_entry 2 ''Tea'']"
    by (simp only: r fo) simp
  from h r' s show ?thesis by blast
qed

section \<open>Properties of saving the settings\<close>

text \<open>
  C9. Submitted with an empty password field, the body of the update has exactly the keys
  email and garmin_username, and the stored Garmin password is the one stored before; a
  non-empty password is sent as it was typed, after the other two keys.
\<close>

theorem C9_handleSubmit_password:
  "(garmin_password formData = [] \<longrightarrow>
      handleSubmit formData =
        [(''email'', email formData), (''garmin_username'', garmin_username formData)]
      \<and> js_get (handleSubmit formData) ''garmin_password'' = None
      \<and> user_garmin_password (put_user_me encrypt (handleSubmit formData) u)
          = user_garmin_password u)
   \<and> (garmin_password formData \<noteq> [] \<longrightarrow>
      handleSubmit formData =
        [(''email'', email formData), (''garmin_username'', garmin_username formData),
         (''garmin_password'', garmin_password formData)]
      \<and> js_get (handleSubmit formData) ''garmin_password'' = Some (garmin_password formData))"
  by (simp add: handleSubmit_def spread_def js_get_def js_delete_def js_not_def
        put_user_me_def Let_def)

theorem C9_handleSubmit_password_witness:
  "handleSubmit \<lparr>email = ''a@b.c'', garmin_username = ''runner'', garmin_password = []\<rparr>
     = [(''email'', ''a@b.c''), (''garmin_username'', ''runner'')]
   \<and> user_garmin_password
        (put_user_me (\<lambda>s. rev s)
           (handleSubmit \<lparr>email = ''a@b.c'', garmin_username = ''runner'', garmin_password = []\<rparr>)
           \<lparr>user_email = ''old@b.c'', user_garmin_username = ''runner'',
            user_garmin_password = Some ''terces''\<rparr>)
       = Some ''terces''
   \<and> handleSubmit \<lparr>email = ''a@b.c'', garmin_username = ''runner'', garmin_password = ''pw''\<rparr>
     = [(''email'', ''a@b.c''), (''garmin_username'', ''runner''), (''garmin_password'', ''pw'')]"
proof -
  let ?blank = "\<lparr>email = ''a@b.c'', garmin_username = ''runner'', garmin_password = []\<rparr>"
  let ?typed = "\<lparr>email = ''a@b.c'', garmin_username = ''runner'', garmin_password = ''pw''\<rparr>"
  let ?u = "\<lparr>user_email = ''old@b.c'', user_garmin_username = ''runner'',
             user_garmin_password = Some ''terces''\<rparr>"
  have hb: "garmin_password ?blank = []" by simp
  have ht: "garmin_password ?typed \<noteq> []" by simp
  have b1: "handleSubmit ?blank
              = [(''email'', email ?blank), (''garmin_username'', garmin_username ?blank)]"
    using C9_handleSubmit_password [of ?blank "\<lambda>s. rev s" ?u] hb by blast
  have b2: "user_garmin_password (put_user_me (\<lambda>s. rev s) (handleSubmit ?blank) ?u)
              = user_garmin_password ?u"
    using C9_handleSubmit_password [of ?blank "\<lambda>s. rev s" ?u] hb by blast
  have t: "handleSubmit ?typed
             = [(''email'', email ?typed), (''garmin_username'', garmin_username ?typed),
                (''garmin_password'', garmin_password ?typed)]"
    using C9_handleSubmit_password [of ?typed "\<lambda>s. rev s" ?u] ht by blast
  have A: "handleSubmit ?blank = [(''email'', ''a@b.c''), (''garmin_username'', ''runner'')]"
    using b1 by simp
  have B: "user_garmin_password (put_user_me (\<lambda>s. rev s) (handleSubmit ?blank) ?u)
             = Some ''terces''"
    using b2 by simp
  have C: "handleSubmit ?typed
             = [(''email'', ''a@b.c''), (''garmin_username'', ''runner''),
                (''garmin_password'', ''pw'')]"
    using t by simp
  from A B C show ?thesis by blast
qed

section \<open>Properties of the Garmin sync\<close>

lemma dates_upsert:
  "map fst (upsert D m store) = (if has_row D store then map fst store else map fst store @ [D])"
  by (auto simp: upsert_def)

lemma has_row_upsert_iff: "has_row D (upsert D' m store) \<longleftrightarrow> D = D' \<or> has_row D store"
  unfolding has_row_def dates_upsert by (auto simp: has_row_def)

lemma has_row_upsert: "has_row D (upsert D m store)"
  by (simp add: has_row_upsert_iff)

lemma has_row_sync: "has_row D store \<Longrightarrow> has_row D (sync garmin D' force store)"
  by (simp add: sync_def has_row_upsert_iff split: option.split)

lemma sync_writes_row: "garmin D = Some m \<Longrightarrow> has_row D (sync garmin D force store)"
  by (simp add: sync_def has_row_upsert)

lemma sync_skip: "has_row D store \<Longrightarrow> sync garmin D False store = store"
  by (simp add: sync_def)

text \<open>
  C1. For every date, a second sync with force=false leaves the table as the first sync
  with force=false left it. Moreover, once the date has a row or Garmin Connect has
  answered the first sync, a second unforced sync changes nothing whatever Garmin Connect
  answers to it.
\<close>

theorem C1_sync_idempotent:
  "sync garmin D False (sync garmin D False store) = sync garmin D False store
   \<and> (has_row D store \<or> garmin D \<noteq> None \<longrightarrow>
        sync garmin' D False (sync garmin D False store) = sync garmin D False store)"
proof -
  have later: "sync g D False (sync garmin D False store) = sync garmin D False store"
    if "has_row D store \<or> garmin D \<noteq> None" for g
  proof -
    from that have "has_row D (sync garmin D False store)"
      by (auto intro: has_row_sync sync_writes_row)
    then show ?thesis by (rule sync_skip)
  qed
  have same: "sync garmin D False (sync garmin D False store) = sync garmin D False store"
  proof (cases "has_row D store \<or> garmin D \<noteq> None")
    case True
    then show ?thesis by (rule later)
  next
    case False
    then show ?thesis by (simp add: sync_def)
  qed
  from same later show ?thesis by blast
qed

theorem C1_sync_idempotent_witness:
  "sync (\<lambda>d. Some (9::nat)) ''2024-05-01'' False
      (sync (\<lambda>d. Some 7) ''2024-05-01'' False []) = [(''2024-05-01'', 7)]
   \<and> sync (\<lambda>d. Some (7::nat)) ''2024-05-01'' False [] = [(''2024-05-01'', 7)]"
proof -
  have once: "sync (\<lambda>d. Some (7::nat)) ''2024-05-01'' False [] = [(''2024-05-01'', 7)]"
    by (simp add: sync_def has_row_def upsert_def)
  have answered: "has_row ''2024-05-01'' ([] :: nat garmin_store)
                    \<or> (\<lambda>d. Some (7::nat)) ''2024-05-01'' \<noteq> None"
    by simp
  have "sync (\<lambda>d. Some (9::nat)) ''2024-05-01'' False
          (sync (\<lambda>d. Some 7) ''2024-05-01'' False [])
        = sync (\<lambda>d. Some 7) ''2024-05-01'' False []"
    using C1_sync_idempotent
            [of "\<lambda>d. Some (7::nat)" "''2024-05-01''" "[]" "\<lambda>d. Some (9::nat)"] answered
    by blast
  with once show ?thesis by simp
qed

lemma map_of_replace:
  "map_of (map (\<lambda>(d, old). if d = D then (d, m) else (d, old)) store) d
     = (if d = D then map_option (\<lambda>old. m) (map_of store D) else map_of store d)"
  by (induction store) auto

lemma upsert_map_of:
  "map_of (upsert D m store) = (map_of store)(D \<mapsto> m)"
proof (cases "has_row D store")
  case False
  then have none: "map_of store D = None"
    by (simp add: has_row_def map_of_eq_None_iff)
  have "map_of (store @ [(D, m)]) d = ((map_of store)(D \<mapsto> m)) d" for d
    using none by (cases "map_of store d") (auto simp: map_add_def)
  with False show ?thesis
    by (auto simp: upsert_def)
next
  case True
  then obtain old where "map_of store D = Some old"
    by (cases "map_of store D") (auto simp: has_row_def map_of_eq_None_iff)
  then have "map_of (map (\<lambda>(d, old). if d = D then (d, m) else (d, old)) store) d
          = ((map_of store)(D \<mapsto> m)) d" for d
    by (simp add: map_of_replace)
  with True show ?thesis
    by (auto simp: upsert_def)
qed

text \<open>
  C2. When the date has a row, a sync with force=false leaves the whole table, and so that
  row, unchanged. A sync with force=true for which the daily aggregate was computed puts
  the aggregate into the row of the date: the table then holds the aggregate for the date,
  the rows of the other dates are kept, and no row is added.
\<close>

theorem C2_skip_or_overwrite:
  "(has_row D store \<longrightarrow> sync garmin D False store = store)
   \<and> (has_row D store \<and> garmin D = Some aggregate \<longrightarrow>
        sync garmin D True store
          = map (\<lambda>(d, old). if d = D then (d, aggregate) else (d, old)) store
        \<and> map_of (sync garmin D True store) = (map_of store)(D \<mapsto> aggregate)
        \<and> map fst (sync garmin D True store) = map fst store)"
  by (auto simp: sync_def upsert_map_of dates_upsert) (simp add: upsert_def)

theorem C2_skip_or_overwrite_witness:
  "has_row ''2024-05-01'' [(''2024-05-01'', 100::nat), (''2024-05-02'', 200)]
   \<and> sync (\<lambda>d. Some 7) ''2024-05-01'' False [(''2024-05-01'', 100::nat), (''2024-05-02'', 200)]
       = [(''2024-05-01'', 100), (''2024-05-02'', 200)]
   \<and> sync (\<lambda>d. Some 7) ''2024-05-01'' True [(''2024-05-01'', 100::nat), (''2024-05-02'', 200)]
       = [(''2024-05-01'', 7), (''2024-05-02'', 200)]"
proof -
  let ?store = "[(''2024-05-01'', 100::nat), (''2024-05-02'', 200)]"
  have row: "has_row ''2024-05-01'' ?store"
    by (simp add: has_row_def)
  have answer: "(\<lambda>d. Some (7::nat)) ''2024-05-01'' = Some 7"
    by simp
  note inst = C2_skip_or_overwrite [of "''2024-05-01''" ?store "\<lambda>d. Some 7" 7]
  have skip: "sync (\<lambda>d. Some 7) ''2024-05-01'' False ?store = ?store"
    using inst row by blast
  have over: "sync (\<lambda>d. Some 7) ''2024-05-01'' True ?store
                = map (\<lambda>(d, old). if d = ''2024-05-01'' then (d, 7) else (d, old)) ?store"
    using inst row answer by blast
  have over': "sync (\<lambda>d. Some 7) ''2024-05-01'' True ?store
                 = [(''2024-05-01'', 7), (''2024-05-02'', 200)]"
    unfolding over by simp
  from row skip over' show ?thesis by blast
qed

lemma one_row_upsert: "one_row_per_date store \<Longrightarrow> one_row_per_date (upsert D m store)"
  by (simp add: one_row_per_date_def dates_upsert has_row_def)

lemma one_row_sync: "one_row_per_date store \<Longrightarrow> one_row_per_date (sync garmin D force store)"
  by (auto simp: sync_def split: option.split intro: one_row_upsert)

lemma reachable_one_row: "reachable store \<Longrightarrow> one_row_per_date store"
  by (induction rule: reachable.induct) (simp_all add: one_row_per_date_def [of "[]"] one_row_sync)

lemma sync_keeps_dates: "has_row D store \<Longrightarrow> map fst (sync garmin D force store) = map fst store"
  by (simp add: sync_def dates_upsert split: option.split)

text \<open>
  C5. Every reachable state of the table has at most one row per calendar date; a sync
  keeps that property; and a sync of a date that has a row leaves the dates of the rows
  as they are (it writes into the row, it adds none).
\<close>

theorem C5_one_row_per_date:
  "(reachable store \<longrightarrow> one_row_per_date store)
   \<and> (one_row_per_date store \<longrightarrow> one_row_per_date (sync garmin D force store))
   \<and> (has_row D store \<longrightarrow> map fst (sync garmin D force store) = map fst store)"
  using reachable_one_row [of store] one_row_sync [of store garmin D force]
    sync_keeps_dates [of D store garmin force]
  by blast

theorem C5_one_row_per_date_witness:
  "reachable (sync (\<lambda>d. Some (9::nat)) ''2024-05-01'' True
                (sync (\<lambda>d. Some 7) ''2024-05-01'' False []))
   \<and> one_row_per_date (sync (\<lambda>d. Some (9::nat)) ''2024-05-01'' True
                (sync (\<lambda>d. Some 7) ''2024-05-01'' False []))
   \<and> sync (\<lambda>d. Some (9::nat)) ''2024-05-01'' True
                (sync (\<lambda>d. Some 7) ''2024-05-01'' False []) = [(''2024-05-01'', 9)]"
proof -
  let ?s = "sync (\<lambda>d. Some (9::nat)) ''2024-05-01'' True
              (sync (\<lambda>d. Some 7) ''2024-05-01'' False [])"
  have r: "reachable ?s"
    by (intro reachable.intros)
  have v: "?s = [(''2024-05-01'', 9)]"
    by (simp add: sync_def has_row_def upsert_def)
  have "one_row_per_date ?s"
    using C5_one_row_per_date [of ?s] r by blast
  with r v show ?thesis by blast
qed

section \<open>Properties of the daily summary\<close>

lemma logged_on_only_dates: "P D \<Longrightarrow> logged_on D (only_dates P tbl) = logged_on D tbl"
  by (induction tbl) (auto simp: logged_on_def only_dates_def)

lemma map_of_only_dates: "P D \<Longrightarrow> map_of (only_dates P tbl) D = map_of tbl D"
  by (induction tbl) (auto simp: only_dates_def)

lemma set_logged_on: "set (logged_on D tbl) = {x. (D, x) \<in> set tbl}"
  by (auto simp: logged_on_def image_iff)

text \<open>
  C6. The daily summary of a date leaves the store as it was. It is the same as the
  summary computed from the rows of that date alone: the food entries, the seizures and the
  activities logged on the date, the number of medications and the sum of the water
  volumes logged on the date, and, the Garmin table having one row per date, the metrics
  of the row of the date. The functions of the client that fetch a summary are GET
  requests, and the cards of the Dashboard show the counts of that day.
\<close>

theorem C6_daily_summary_read_only_join:
  "snd (get_daily_summary D store) = store
   \<and> fst (get_daily_summary D store)
       = fst (get_daily_summary D (restrict_store (\<lambda>d. d = D) store))
   \<and> set (food_entries (fst (get_daily_summary D store))) = {x. (D, x) \<in> set (food_table store)}
   \<and> set (seizures (fst (get_daily_summary D store))) = {x. (D, x) \<in> set (seizure_table store)}
   \<and> set (activities (fst (get_daily_summary D store)))
       = {x. (D, x) \<in> set (activity_table store)}
   \<and> medication_count (fst (get_daily_summary D store))
       = length (filter (\<lambda>r. fst r = D) (medication_table store))
   \<and> total_water_ml (fst (get_daily_summary D store))
       = sum_list (map snd (filter (\<lambda>r. fst r = D) (water_table store)))
   \<and> (one_row_per_date (garmin_table store) \<longrightarrow>
        (\<forall>m. garmin_data (fst (get_daily_summary D store)) = Some m
               \<longleftrightarrow> (D, m) \<in> set (garmin_table store)))
   \<and> map verb (filter (\<lambda>x. heading x = Sec_Dashboard) client_exports) = [GET, GET, GET]
   \<and> meals_logged (Daily_Log_Summary (Some (fst (get_daily_summary D store))))
       = length (filter (\<lambda>r. fst r = D) (food_table store))
   \<and> seizures_shown (Daily_Log_Summary (Some (fst (get_daily_summary D store))))
       = length (filter (\<lambda>r. fst r = D) (seizure_table store))"
proof -
  have frame: "fst (get_daily_summary D store)
                 = fst (get_daily_summary D (restrict_store (\<lambda>d. d = D) store))"
    by (simp add: get_daily_summary_def restrict_store_def logged_on_only_dates
          map_of_only_dates)
  have sets: "set (food_entries (fst (get_daily_summary D store)))
                = {x. (D, x) \<in> set (food_table store)}"
    "set (seizures (fst (get_daily_summary D store))) = {x. (D, x) \<in> set (seizure_table store)}"
    "set (activities (fst (get_daily_summary D store)))
                = {x. (D, x) \<in> set (activity_table store)}"
    by (simp_all add: get_daily_summary_def set_logged_on)
  have counts: "medication_count (fst (get_daily_summary D store))
                  = length (filter (\<lambda>r. fst r = D) (medication_table store))"
    "total_water_ml (fst (get_daily_summary D store))
                  = sum_list (map snd (filter (\<lambda>r. fst r = D) (water_table store)))"
    "meals_logged (Daily_Log_Summary (Some (fst (get_daily_summary D store))))
       = length (filter (\<lambda>r. fst r = D) (food_table store))"
    "seizures_shown (Daily_Log_Summary (Some (fst (get_daily_summary D store))))
       = length (filter (\<lambda>r. fst r = D) (seizure_table store))"
    by (simp_all add: get_daily_summary_def Daily_Log_Summary_def logged_on_def
          case_prod_unfold)
  have garmin: "\<forall>m. garmin_data (fst (get_daily_summary D store)) = Some m
                  \<longleftrightarrow> (D, m) \<in> set (garmin_table store)"
    if "one_row_per_date (garmin_table store)"
    using that by (simp add: get_daily_summary_def one_row_per_date_def)
  have gets: "map verb (filter (\<lambda>x. heading x = Sec_Dashboard) client_exports) = [GET, GET, GET]"
    by (simp add: client_exports_def)
  have pure: "snd (get_daily_summary D store) = store"
    by (simp add: get_daily_summary_def)
  from pure frame sets counts garmin gets show ?thesis by blast
qed

theorem C6_daily_summary_read_only_join_witness:
  "one_row_per_date (garmin_table example_store)
   \<and> get_daily_summary ''2024-05-02'' example_store
       = (\<lparr>garmin_data = Some 9500, food_entries = [''rice'', ''tea''], medication_count = 1,
           total_water_ml = 550, seizures = [], activities = [''run'']\<rparr>, example_store)
   \<and> (9500 = (9500::nat) \<longleftrightarrow> (''2024-05-02'', 9500) \<in> set (garmin_table example_store))"
proof -
  have one: "one_row_per_date (garmin_table example_store)"
    by (simp add: one_row_per_date_def example_store_def)
  have val: "get_daily_summary ''2024-05-02'' example_store
       = (\<lparr>garmin_data = Some 9500, food_entries = [''rice'', ''tea''], medication_count = 1,
           total_water_ml = 550, seizures = [], activities = [''run'']\<rparr>, example_store)"
    by (simp add: get_daily_summary_def logged_on_def example_store_def)
  have "garmin_data (fst (get_daily_summary ''2024-05-02'' example_store)) = Some 9500
          \<longleftrightarrow> (''2024-05-02'', 9500) \<in> set (garmin_table example_store)"
    using C6_daily_summary_read_only_join [of "''2024-05-02''" example_store] one by blast
  then have "9500 = (9500::nat) \<longleftrightarrow> (''2024-05-02'', 9500) \<in> set (garmin_table example_store)"
    unfolding val by simp
  with one val show ?thesis by blast
qed

section \<open>Properties of the CRUD operations of the logs\<close>

lemma fresh_ids_iff: "fresh_ids t \<longleftrightarrow> (\<forall>r \<in> set (rows t). fst r < next_id t)"
  by (simp add: fresh_ids_def list_all_iff)

lemma fresh_empty: "fresh_ids empty_table"
  by (simp add: fresh_ids_def empty_table_def)

lemma fresh_create: "fresh_ids t \<Longrightarrow> create_entry valid E t = Some (i, t') \<Longrightarrow> fresh_ids t'"
  by (fastforce simp: fresh_ids_iff create_entry_def split: if_splits)

lemma fresh_update: "fresh_ids t \<Longrightarrow> update_entry valid i D t = Some t' \<Longrightarrow> fresh_ids t'"
  by (fastforce simp: fresh_ids_iff update_entry_def split: if_splits)

lemma fresh_delete: "fresh_ids t \<Longrightarrow> delete_entry i t = Some t' \<Longrightarrow> fresh_ids t'"
  by (fastforce simp: fresh_ids_iff delete_entry_def split: if_splits)















end
